theory Spec2Isabelle
  imports Complex_Main
begin

section \<open>JavaScript values and the operators the endpoint applies to them\<close>

text \<open>
  The provider's payloads are loosely typed JSON (\<^verbatim>\<open>as any\<close> in the source), so the
  model keeps JavaScript values as they are at run time. A number is taken as a real; a
  string is held as the bytes \<^verbatim>\<open>TextEncoder\<close> writes for it (its UTF-8 form); the
  fields of an object are an association list whose first binding of a key is the
  effective one.
\<close>

datatype js =
    JUndefined
  | JNull
  | JBool bool
  | JNum real
  | JStr string
  | JArr "js list"
  | JObj "(string \<times> js) list"

datatype js_error =
    SyntaxError
  | TypeError
  | ValidationError "string list"
  | TransportError string

text \<open>Truthiness, as \<^verbatim>\<open>&&\<close>, \<^verbatim>\<open>||\<close>, \<^verbatim>\<open>!\<close> and \<^verbatim>\<open>?:\<close> test it.\<close>

fun truthy :: "js \<Rightarrow> bool" where
  "truthy JUndefined = False"
| "truthy JNull = False"
| "truthy (JBool b) = b"
| "truthy (JNum x) = (x \<noteq> 0)"
| "truthy (JStr s) = (s \<noteq> [])"
| "truthy (JArr xs) = True"
| "truthy (JObj fs) = True"

text \<open>
  \<^verbatim>\<open>v.name\<close> for the names the endpoint reads (\<^verbatim>\<open>candidates\<close>, \<^verbatim>\<open>content\<close>,
  \<^verbatim>\<open>parts\<close>, \<^verbatim>\<open>text\<close>, \<^verbatim>\<open>usageMetadata\<close> and the three counters): none of them is
  defined by a built-in prototype, so only an object can hold one. Reading a property of
  \<^verbatim>\<open>null\<close> or \<^verbatim>\<open>undefined\<close> throws a TypeError.
\<close>

fun js_dot :: "js \<Rightarrow> string \<Rightarrow> js_error + js" where
  "js_dot JUndefined k = Inl TypeError"
| "js_dot JNull k = Inl TypeError"
| "js_dot (JObj fs) k = Inr (case map_of fs k of None \<Rightarrow> JUndefined | Some v \<Rightarrow> v)"
| "js_dot v k = Inr JUndefined"

text \<open>
  \<^verbatim>\<open>v[0]\<close>: the first element of an array, the first unit of a string, the property
  \<^verbatim>\<open>"0"\<close> of an object.
\<close>

fun js_index0 :: "js \<Rightarrow> js_error + js" where
  "js_index0 JUndefined = Inl TypeError"
| "js_index0 JNull = Inl TypeError"
| "js_index0 (JArr xs) = Inr (case xs of [] \<Rightarrow> JUndefined | x # _ \<Rightarrow> x)"
| "js_index0 (JStr s) = Inr (if s = [] then JUndefined else JStr (take 1 s))"
| "js_index0 (JObj fs) = Inr (case map_of fs ''0'' of None \<Rightarrow> JUndefined | Some v \<Rightarrow> v)"
| "js_index0 v = Inr JUndefined"

text \<open>
  One operand of a chain \<^verbatim>\<open>a && b && ...\<close> used as a condition: an exception raised by
  the operand propagates, a falsy operand ends the chain with nothing, a truthy one is
  handed to the rest of the chain.
\<close>

definition guarded :: "js_error + js \<Rightarrow> (js \<Rightarrow> js_error + js option) \<Rightarrow> js_error + js option" where
  "guarded r k = (case r of Inl e \<Rightarrow> Inl e | Inr v \<Rightarrow> if truthy v then k v else Inr None)"

text \<open>
  The two nested conditions that both translators evaluate on a provider payload
  (\<^verbatim>\<open>data.candidates && data.candidates[0] && data.candidates[0].content\<close>, then
  \<^verbatim>\<open>content.parts && content.parts[0] && content.parts[0].text\<close>): the value of
  \<^verbatim>\<open>content.parts[0].text\<close> when every operand is truthy.
\<close>

definition first_text :: "js \<Rightarrow> js_error + js option" where
  "first_text data =
     guarded (js_dot data ''candidates'') (\<lambda>candidates.
     guarded (js_index0 candidates) (\<lambda>candidate.
     guarded (js_dot candidate ''content'') (\<lambda>content.
     guarded (js_dot content ''parts'') (\<lambda>parts.
     guarded (js_index0 parts) (\<lambda>part.
     guarded (js_dot part ''text'') (\<lambda>text. Inr (Some text)))))))"

section \<open>The platform: JSON.parse, number printing, TextEncoder, TextDecoder\<close>

text \<open>
  \<^verbatim>\<open>JSON.parse\<close> and the printing of numbers belong to the JavaScript engine. They are
  parameters of the model: \<open>JSON_parse\<close> returns \<open>None\<close> where the engine throws a
  SyntaxError. Every theorem below that mentions a \<open>platform\<close> holds for each one.
\<close>

record platform =
  JSON_parse :: "string \<Rightarrow> js option"
  Number_toString :: "real \<Rightarrow> string"

fun join_commas :: "string list \<Rightarrow> string" where
  "join_commas [] = []"
| "join_commas [s] = s"
| "join_commas (s # t # ss) = s @ '','' @ join_commas (t # ss)"

text \<open>The string conversion applied to the argument of \<^verbatim>\<open>TextEncoder.encode\<close>.\<close>

fun js_to_string :: "platform \<Rightarrow> js \<Rightarrow> string" where
  "js_to_string pf JUndefined = ''undefined''"
| "js_to_string pf JNull = ''null''"
| "js_to_string pf (JBool b) = (if b then ''true'' else ''false'')"
| "js_to_string pf (JNum x) = Number_toString pf x"
| "js_to_string pf (JStr s) = s"
| "js_to_string pf (JArr xs) =
     join_commas (map (\<lambda>x. if x = JNull \<or> x = JUndefined then [] else js_to_string pf x) xs)"
| "js_to_string pf (JObj fs) = ''[object Object]''"

definition TextEncoder_encode :: "platform \<Rightarrow> js \<Rightarrow> string" where
  "TextEncoder_encode pf v = js_to_string pf v"

text \<open>
  \<^verbatim>\<open>new TextDecoder()\<close> is the streaming UTF-8 decoder of the Encoding standard in
  replacement mode. Its output is again held in UTF-8: a well-formed sequence is passed on
  as it is, every malformed one becomes U+FFFD, and a byte-order mark that opens the
  stream is dropped. \<open>pending\<close> holds the bytes of a sequence that is not complete yet.
\<close>

record utf8_decoder =
  pending :: string
  needed :: nat
  lower :: nat
  upper :: nat
  bom_seen :: bool

definition new_TextDecoder :: utf8_decoder where
  "new_TextDecoder = \<lparr>pending = [], needed = 0, lower = 0x80, upper = 0xBF, bom_seen = False\<rparr>"

definition byte :: "char \<Rightarrow> nat" where
  "byte c = of_char c"

definition U_FFFD :: string where
  "U_FFFD = [CHR 0xEF, CHR 0xBF, CHR 0xBD]"

definition U_FEFF :: string where
  "U_FEFF = [CHR 0xEF, CHR 0xBB, CHR 0xBF]"

definition idle :: "utf8_decoder \<Rightarrow> utf8_decoder" where
  "idle d = d\<lparr>pending := [], needed := 0, lower := 0x80, upper := 0xBF\<rparr>"

text \<open>One scalar value leaves the decoder; the first one is dropped if it is the mark.\<close>

definition emit :: "utf8_decoder \<Rightarrow> string \<Rightarrow> string \<times> utf8_decoder" where
  "emit d tok =
     (if bom_seen d then (tok, d)
      else (if tok = U_FEFF then [] else tok, d\<lparr>bom_seen := True\<rparr>))"

text \<open>A byte that arrives while no sequence is open.\<close>

definition decode_lead :: "utf8_decoder \<Rightarrow> char \<Rightarrow> string \<times> utf8_decoder" where
  "decode_lead d b =
     (let n = byte b in
      if n \<le> 0x7F then emit d [b]
      else if 0xC2 \<le> n \<and> n \<le> 0xDF then
        ([], d\<lparr>pending := [b], needed := 1\<rparr>)
      else if 0xE0 \<le> n \<and> n \<le> 0xEF then
        ([], d\<lparr>pending := [b], needed := 2,
                lower := (if n = 0xE0 then 0xA0 else 0x80),
                upper := (if n = 0xED then 0x9F else 0xBF)\<rparr>)
      else if 0xF0 \<le> n \<and> n \<le> 0xF4 then
        ([], d\<lparr>pending := [b], needed := 3,
                lower := (if n = 0xF0 then 0x90 else 0x80),
                upper := (if n = 0xF4 then 0x8F else 0xBF)\<rparr>)
      else emit d U_FFFD)"

text \<open>
  One byte. A byte that cannot continue the open sequence ends it as U+FFFD and is then
  read again as the start of the next one.
\<close>

definition decode_byte :: "utf8_decoder \<Rightarrow> char \<Rightarrow> string \<times> utf8_decoder" where
  "decode_byte d b =
     (if needed d = 0 then decode_lead d b
      else if byte b < lower d \<or> upper d < byte b then
        (let (o1, d1) = emit (idle d) U_FFFD;
             (o2, d2) = decode_lead d1 b
         in (o1 @ o2, d2))
      else if needed d = 1 then emit (idle d) (pending d @ [b])
      else ([], d\<lparr>pending := pending d @ [b], needed := needed d - 1,
                   lower := 0x80, upper := 0xBF\<rparr>))"

text \<open>\<^verbatim>\<open>decoder.decode(value, { stream: true })\<close>: the state outlives the call.\<close>

fun decode :: "utf8_decoder \<Rightarrow> string \<Rightarrow> string \<times> utf8_decoder" where
  "decode d [] = ([], d)"
| "decode d (b # bs) =
     (let (o1, d1) = decode_byte d b;
          (o2, d2) = decode d1 bs
      in (o1 @ o2, d2))"

section \<open>Strings: split, trim, startsWith\<close>

definition newline :: char where
  "newline = CHR 0x0A"

text \<open>\<^verbatim>\<open>chunk.split("\n")\<close>: never empty, the last piece is what follows the last newline.\<close>

fun split_nl :: "string \<Rightarrow> string list" where
  "split_nl [] = [[]]"
| "split_nl (c # cs) =
     (if c = newline then [] # split_nl cs
      else (case split_nl cs of [] \<Rightarrow> [[c]] | l # ls \<Rightarrow> (c # l) # ls))"

definition starts_with :: "string \<Rightarrow> string \<Rightarrow> bool" where
  "starts_with p s = (take (length p) s = p)"

text \<open>
  The white space and line terminators that \<^verbatim>\<open>trim\<close> removes, in UTF-8: the length of
  the one that opens the string, 0 if none does.
\<close>

definition ws_len :: "string \<Rightarrow> nat" where
  "ws_len s =
     (case map byte s of
        [] \<Rightarrow> 0
      | a # r \<Rightarrow>
          if a = 0x09 \<or> a = 0x0A \<or> a = 0x0B \<or> a = 0x0C \<or> a = 0x0D \<or> a = 0x20 then 1
          else (case r of
             [] \<Rightarrow> 0
           | b # r' \<Rightarrow>
               if a = 0xC2 \<and> b = 0xA0 then 2
               else (case r' of
                  [] \<Rightarrow> 0
                | c # r'' \<Rightarrow>
                    if a = 0xE1 \<and> b = 0x9A \<and> c = 0x80 then 3
                    else if a = 0xE2 \<and> b = 0x80 \<and>
                      (0x80 \<le> c \<and> c \<le> 0x8A \<or> c = 0xA8 \<or> c = 0xA9 \<or> c = 0xAF) then 3
                    else if a = 0xE2 \<and> b = 0x81 \<and> c = 0x9F then 3
                    else if a = 0xE3 \<and> b = 0x80 \<and> c = 0x80 then 3
                    else if a = 0xEF \<and> b = 0xBB \<and> c = 0xBF then 3
                    else 0)))"

text \<open>\<^verbatim>\<open>line.trim()\<close> is the empty string, which is falsy.\<close>

function js_blank :: "string \<Rightarrow> bool" where
  "js_blank s = (if s = [] then True else if ws_len s = 0 then False else js_blank (drop (ws_len s) s))"
  by pat_completeness auto
termination
  by (relation "measure length") auto

declare js_blank.simps [simp del]

section \<open>The streaming translator\<close>

text \<open>
  The body of the \<^verbatim>\<open>for (const line of lines)\<close> loop of \<^verbatim>\<open>handleStreamResponse\<close>: the
  fragments it enqueues for one line. Both a SyntaxError of \<^verbatim>\<open>JSON.parse\<close> and a
  TypeError of the property chain are caught by the inner \<^verbatim>\<open>try\<close> and only logged.
\<close>

definition handle_line :: "platform \<Rightarrow> string \<Rightarrow> string list" where
  "handle_line pf line =
     (if \<not> js_blank line \<and> starts_with ''data: '' line then
        (case JSON_parse pf (drop 6 line) of
           None \<Rightarrow> []
         | Some data \<Rightarrow>
             (case first_text data of
                Inl e \<Rightarrow> []
              | Inr None \<Rightarrow> []
              | Inr (Some text) \<Rightarrow> [TextEncoder_encode pf text]))
      else [])"

text \<open>The whole \<^verbatim>\<open>for\<close> loop over \<^verbatim>\<open>chunk.split("\n")\<close>.\<close>

definition handle_chunk :: "platform \<Rightarrow> string \<Rightarrow> string list" where
  "handle_chunk pf chunk = concat (map (handle_line pf) (split_nl chunk))"

text \<open>
  What \<^verbatim>\<open>reader.read()\<close> resolves or rejects with, and the state of the caller-facing
  stream: open, closed by \<^verbatim>\<open>controller.close()\<close>, or errored by \<^verbatim>\<open>controller.error\<close>.
\<close>

datatype read_result = Chunk string | Done | ReadError js_error

datatype stream_status = Open | Closed | Errored js_error

text \<open>
  The \<^verbatim>\<open>while (true)\<close> loop of \<^verbatim>\<open>start(controller)\<close>, driven by the outcomes of the
  successive reads: the fragments enqueued, in order, and the final state of the
  caller-facing stream. When the outcomes run out the loop is waiting in
  \<^verbatim>\<open>await reader.read()\<close> and the stream is still open. The caller is taken to keep
  reading: cancellation by the caller is not part of the model.
\<close>

fun stream_start :: "platform \<Rightarrow> utf8_decoder \<Rightarrow> read_result list \<Rightarrow> string list \<times> stream_status" where
  "stream_start pf decoder [] = ([], Open)"
| "stream_start pf decoder (Done # rs) = ([], Closed)"
| "stream_start pf decoder (ReadError e # rs) = ([], Errored e)"
| "stream_start pf decoder (Chunk v # rs) =
     (let (chunk, decoder') = decode decoder v;
          (out, st) = stream_start pf decoder' rs
      in (handle_chunk pf chunk @ out, st))"

text \<open>Sequencing of calls that may throw: the first exception ends the sequence.\<close>

definition then_do :: "'e + 'a \<Rightarrow> ('a \<Rightarrow> 'e + 'b) \<Rightarrow> 'e + 'b" where
  "then_do r k = (case r of Inl e \<Rightarrow> Inl e | Inr v \<Rightarrow> k v)"

text \<open>\<^verbatim>\<open>a || b\<close>.\<close>

definition js_or :: "js \<Rightarrow> js \<Rightarrow> js" where
  "js_or a b = (if truthy a then a else b)"

section \<open>HTTP responses\<close>

datatype http_body = JsonBody js | StreamBody "string list" stream_status

record http_response =
  rsp_status :: nat
  rsp_headers :: "(string \<times> string) list"
  rsp_body :: http_body

text \<open>
  What \<^verbatim>\<open>JSON.stringify\<close> keeps of a value: a property whose value is \<^verbatim>\<open>undefined\<close>
  is left out of its object.
\<close>

fun json_view :: "js \<Rightarrow> js" where
  "json_view (JObj fs) =
     JObj (map (\<lambda>kv. (fst kv, json_view (snd kv))) (filter (\<lambda>kv. snd kv \<noteq> JUndefined) fs))"
| "json_view (JArr xs) = JArr (map (\<lambda>x. if x = JUndefined then JNull else json_view x) xs)"
| "json_view v = v"

text \<open>\<^verbatim>\<open>c.json(object, status)\<close>; \<open>rsp_headers\<close> lists the headers the endpoint itself sets.\<close>

definition c_json :: "js \<Rightarrow> nat \<Rightarrow> http_response" where
  "c_json obj st = \<lparr>rsp_status = st, rsp_headers = [], rsp_body = JsonBody (json_view obj)\<rparr>"

definition failure :: "string \<Rightarrow> js" where
  "failure msg = JObj [(''success'', JBool False), (''error'', JStr msg)]"

definition msg_key_missing :: string where
  "msg_key_missing = ''Gemini API'' @
     [CHR 0xE5, CHR 0xAF, CHR 0x86, CHR 0xE9, CHR 0x92, CHR 0xA5, CHR 0xE6, CHR 0x9C, CHR 0xAA,
      CHR 0xE9, CHR 0x85, CHR 0x8D, CHR 0xE7, CHR 0xBD, CHR 0xAE]"

definition msg_request_failed :: string where
  "msg_request_failed = ''Gemini API'' @
     [CHR 0xE8, CHR 0xAF, CHR 0xB7, CHR 0xE6, CHR 0xB1, CHR 0x82, CHR 0xE5, CHR 0xA4, CHR 0xB1,
      CHR 0xE8, CHR 0xB4, CHR 0xA5] @ '': ''"

definition msg_internal_error :: string where
  "msg_internal_error =
     [CHR 0xE5, CHR 0xA4, CHR 0x84, CHR 0xE7, CHR 0x90, CHR 0x86, CHR 0xE8, CHR 0xAF, CHR 0xB7,
      CHR 0xE6, CHR 0xB1, CHR 0x82, CHR 0xE6, CHR 0x97, CHR 0xB6, CHR 0xE5, CHR 0x8F, CHR 0x91,
      CHR 0xE7, CHR 0x94, CHR 0x9F, CHR 0xE5, CHR 0x86, CHR 0x85, CHR 0xE9, CHR 0x83, CHR 0xA8,
      CHR 0xE9, CHR 0x94, CHR 0x99, CHR 0xE8, CHR 0xAF, CHR 0xAF]"

definition msg_no_reader :: string where
  "msg_no_reader =
     [CHR 0xE6, CHR 0x97, CHR 0xA0, CHR 0xE6, CHR 0xB3, CHR 0x95, CHR 0xE8, CHR 0xAF, CHR 0xBB,
      CHR 0xE5, CHR 0x8F, CHR 0x96, CHR 0xE6, CHR 0xB5, CHR 0x81, CHR 0xE5, CHR 0xBC, CHR 0x8F,
      CHR 0xE5, CHR 0x93, CHR 0x8D, CHR 0xE5, CHR 0xBA, CHR 0x94]"

definition msg_generate_failed :: string where
  "msg_generate_failed =
     [CHR 0xE7, CHR 0x94, CHR 0x9F, CHR 0xE6, CHR 0x88, CHR 0x90, CHR 0xE5, CHR 0x86, CHR 0x85,
      CHR 0xE5, CHR 0xAE, CHR 0xB9, CHR 0xE5, CHR 0xA4, CHR 0xB1, CHR 0xE8, CHR 0xB4, CHR 0xA5]"

section \<open>The provider's response\<close>

text \<open>
  The \<^verbatim>\<open>Response\<close> that \<^verbatim>\<open>fetch\<close> resolves with, as the endpoint observes it: its
  status, what \<^verbatim>\<open>await response.text()\<close> and \<^verbatim>\<open>await response.json()\<close> give (each may
  throw), and, if it has a body, the outcomes of the successive reads of its reader.
\<close>

record provider_response =
  p_status :: nat
  p_text :: "js_error + string"
  p_json :: "js_error + js"
  p_body :: "read_result list option"

definition response_ok :: "provider_response \<Rightarrow> bool" where
  "response_ok r = (200 \<le> p_status r \<and> p_status r \<le> 299)"

section \<open>handleStreamResponse and handleNormalResponse\<close>

definition handleStreamResponse :: "platform \<Rightarrow> provider_response \<Rightarrow> string \<Rightarrow> http_response" where
  "handleStreamResponse pf response conversationId =
     (case p_body response of
        None \<Rightarrow> c_json (failure msg_no_reader) 500
      | Some reads \<Rightarrow>
          (let (fragments, st) = stream_start pf new_TextDecoder reads in
           \<lparr>rsp_status = 200,
            rsp_headers =
              [(''Content-Type'', ''text/plain; charset=utf-8''),
               (''Cache-Control'', ''no-cache''),
               (''Connection'', ''keep-alive''),
               (''X-Conversation-ID'', conversationId)],
            rsp_body = StreamBody fragments st\<rparr>))"

text \<open>
  The expression that both buffered translators evaluate on the usage-metadata block:
  \<^verbatim>\<open>um ? { prompt_tokens: um.promptTokenCount || 0, ... } : undefined\<close>.
\<close>

definition usage_of :: "js \<Rightarrow> js_error + js" where
  "usage_of um =
     (if truthy um then
        then_do (js_dot um ''promptTokenCount'') (\<lambda>p.
        then_do (js_dot um ''candidatesTokenCount'') (\<lambda>c.
        then_do (js_dot um ''totalTokenCount'') (\<lambda>t.
          Inr (JObj [(''prompt_tokens'', js_or p (JNum 0)),
                     (''completion_tokens'', js_or c (JNum 0)),
                     (''total_tokens'', js_or t (JNum 0))]))))
      else Inr JUndefined)"

text \<open>
  \<^verbatim>\<open>handleNormalResponse\<close> has no \<^verbatim>\<open>try\<close>: an exception (the body is not JSON, the
  document is \<^verbatim>\<open>null\<close>) rejects its promise.
\<close>

definition handleNormalResponse :: "provider_response \<Rightarrow> string \<Rightarrow> js_error + http_response" where
  "handleNormalResponse response conversationId =
     then_do (p_json response) (\<lambda>data.
     then_do (first_text data) (\<lambda>found.
     then_do (js_dot data ''usageMetadata'') (\<lambda>um.
     then_do (usage_of um) (\<lambda>usage.
       Inr (c_json
         (JObj [(''success'', JBool True),
                (''conversation_id'', JStr conversationId),
                (''message'', (case found of None \<Rightarrow> JStr [] | Some text \<Rightarrow> text)),
                (''usage'', usage)])
         200)))))"

text \<open>
  The SDK variant of the endpoint. \<open>sdk_text\<close> is what \<^verbatim>\<open>response.text()\<close> of the SDK
  gives, \<open>sdk_usageMetadata\<close> the value of \<^verbatim>\<open>response.usageMetadata\<close>; the argument
  \<open>generated\<close> is the outcome of \<^verbatim>\<open>model.generateContent\<close>. Every exception is answered
  by the \<^verbatim>\<open>catch\<close> block.
\<close>

record sdk_response =
  sdk_text :: "js_error + string"
  sdk_usageMetadata :: js

definition handleNormalResponseWithSDK :: "js_error + sdk_response \<Rightarrow> string \<Rightarrow> http_response" where
  "handleNormalResponseWithSDK generated conversationId =
     (case
        then_do generated (\<lambda>response.
        then_do (sdk_text response) (\<lambda>message.
        then_do (usage_of (sdk_usageMetadata response)) (\<lambda>usage.
          Inr (c_json
            (JObj [(''success'', JBool True),
                   (''conversation_id'', JStr conversationId),
                   (''message'', JStr message),
                   (''usage'', usage)])
            200))))
      of
        Inl e \<Rightarrow> c_json (failure msg_generate_failed) 500
      | Inr r \<Rightarrow> r)"

section \<open>The request schema and the handler\<close>

text \<open>
  The body of the inbound request, field by field (\<open>JUndefined\<close>: the field is absent),
  and the \<^verbatim>\<open>ChatRequest\<close> schema of \<^verbatim>\<open>base.ts\<close>:
  \<^verbatim>\<open>message: z.string().min(1)\<close>, \<^verbatim>\<open>conversation_id: z.string().optional()\<close>,
  \<^verbatim>\<open>temperature: z.number().min(0).max(2).default(0.7)\<close>,
  \<^verbatim>\<open>max_tokens: z.number().min(1).max(8192).default(1024)\<close>,
  \<^verbatim>\<open>stream: z.boolean().default(true)\<close>.
\<close>

record raw_body =
  raw_message :: js
  raw_conversation_id :: js
  raw_temperature :: js
  raw_max_tokens :: js
  raw_stream :: js

record ChatRequest =
  message :: string
  conversation_id :: "string option"
  temperature :: real
  max_tokens :: real
  stream :: bool

definition message_issues :: "js \<Rightarrow> string list" where
  "message_issues v =
     (case v of JStr s \<Rightarrow> if 1 \<le> length s then [] else [''message''] | _ \<Rightarrow> [''message''])"

definition conversation_id_issues :: "js \<Rightarrow> string list" where
  "conversation_id_issues v =
     (case v of JUndefined \<Rightarrow> [] | JStr s \<Rightarrow> [] | _ \<Rightarrow> [''conversation_id''])"

definition temperature_issues :: "js \<Rightarrow> string list" where
  "temperature_issues v =
     (case v of
        JUndefined \<Rightarrow> []
      | JNum x \<Rightarrow> if 0 \<le> x \<and> x \<le> 2 then [] else [''temperature'']
      | _ \<Rightarrow> [''temperature''])"

definition max_tokens_issues :: "js \<Rightarrow> string list" where
  "max_tokens_issues v =
     (case v of
        JUndefined \<Rightarrow> []
      | JNum x \<Rightarrow> if 1 \<le> x \<and> x \<le> 8192 then [] else [''max_tokens'']
      | _ \<Rightarrow> [''max_tokens''])"

definition stream_issues :: "js \<Rightarrow> string list" where
  "stream_issues v = (case v of JUndefined \<Rightarrow> [] | JBool b \<Rightarrow> [] | _ \<Rightarrow> [''stream''])"

text \<open>
  \<^verbatim>\<open>await this.getValidatedData()\<close>: the validated body with the defaults filled in, or
  the exception that lists the fields in violation.
\<close>

definition getValidatedData :: "raw_body \<Rightarrow> js_error + ChatRequest" where
  "getValidatedData raw =
     (let issues =
        message_issues (raw_message raw) @ conversation_id_issues (raw_conversation_id raw) @
        temperature_issues (raw_temperature raw) @ max_tokens_issues (raw_max_tokens raw) @
        stream_issues (raw_stream raw)
      in if issues \<noteq> [] then Inl (ValidationError issues)
         else Inr
           \<lparr>message = (case raw_message raw of JStr s \<Rightarrow> s | _ \<Rightarrow> []),
            conversation_id = (case raw_conversation_id raw of JStr s \<Rightarrow> Some s | _ \<Rightarrow> None),
            temperature = (case raw_temperature raw of JNum x \<Rightarrow> x | _ \<Rightarrow> 0.7),
            max_tokens = (case raw_max_tokens raw of JNum x \<Rightarrow> x | _ \<Rightarrow> 1024),
            stream = (case raw_stream raw of JBool b \<Rightarrow> b | _ \<Rightarrow> True)\<rparr>)"

text \<open>One provider call: the URL, the key header and the JSON that is sent.\<close>

record fetch_request =
  fr_url :: string
  fr_api_key :: string
  fr_body :: js

definition BASE_URL :: string where
  "BASE_URL = ''https://generativelanguage.googleapis.com/v1beta''"

definition MODEL :: string where
  "MODEL = ''gemini-2.0-flash''"

definition STREAM_MODEL :: string where
  "STREAM_MODEL = ''gemini-2.0-flash''"

definition provider_call :: "ChatRequest \<Rightarrow> string \<Rightarrow> fetch_request" where
  "provider_call data apiKey =
     \<lparr>fr_url =
        (if stream data then BASE_URL @ ''/models/'' @ STREAM_MODEL @ '':streamGenerateContent''
         else BASE_URL @ ''/models/'' @ MODEL @ '':generateContent''),
      fr_api_key = apiKey,
      fr_body =
        JObj [(''contents'', JArr [JObj [(''parts'', JArr [JObj [(''text'', JStr (message data))]])]]),
              (''generationConfig'',
               JObj [(''temperature'', JNum (temperature data)),
                     (''maxOutputTokens'', JNum (max_tokens data))])]\<rparr>"

text \<open>
  What the handler finds around it: the configured key, the provider behind
  \<^verbatim>\<open>fetch\<close> (\<open>Inl\<close>: the call throws), and the identifier that
  \<^verbatim>\<open>generateConversationId()\<close> would return (it reads the clock and a random number).
\<close>

record AppContext =
  GEMINI_API_KEY :: "string option"
  fetch :: "fetch_request \<Rightarrow> js_error + provider_response"
  generateConversationId :: string

definition resolve_conversation_id :: "AppContext \<Rightarrow> ChatRequest \<Rightarrow> string" where
  "resolve_conversation_id c data =
     (case conversation_id data of
        None \<Rightarrow> generateConversationId c
      | Some s \<Rightarrow> if s \<noteq> [] then s else generateConversationId c)"

text \<open>
  \<^verbatim>\<open>handle\<close>: the response (\<open>Inl\<close>: the returned promise rejects, which only the
  un-awaited \<^verbatim>\<open>handleNormalResponse\<close> can do) and the provider calls made. Everything
  awaited inside the \<^verbatim>\<open>try\<close> block, the validation included, ends in the \<^verbatim>\<open>catch\<close>
  block when it throws.
\<close>

definition handle :: "platform \<Rightarrow> AppContext \<Rightarrow> raw_body \<Rightarrow> (js_error + http_response) \<times> fetch_request list" where
  "handle pf c raw =
     (case getValidatedData raw of
        Inl e \<Rightarrow> (Inr (c_json (failure msg_internal_error) 500), [])
      | Inr data \<Rightarrow>
          (case GEMINI_API_KEY c of
             None \<Rightarrow> (Inr (c_json (failure msg_key_missing) 500), [])
           | Some apiKey \<Rightarrow>
               if apiKey = [] then (Inr (c_json (failure msg_key_missing) 500), [])
               else
                 (case fetch c (provider_call data apiKey) of
                    Inl e \<Rightarrow> (Inr (c_json (failure msg_internal_error) 500), [provider_call data apiKey])
                  | Inr response \<Rightarrow>
                      if \<not> response_ok response then
                        (case p_text response of
                           Inl e \<Rightarrow>
                             (Inr (c_json (failure msg_internal_error) 500), [provider_call data apiKey])
                         | Inr errorText \<Rightarrow>
                             (Inr (c_json
                                (failure (msg_request_failed @
                                   Number_toString pf (real (p_status response))))
                                (p_status response)),
                              [provider_call data apiKey]))
                      else if stream data then
                        (Inr (handleStreamResponse pf response (resolve_conversation_id c data)),
                         [provider_call data apiKey])
                      else
                        (handleNormalResponse response (resolve_conversation_id c data),
                         [provider_call data apiKey]))))"

section \<open>What a caller observes of an exchange\<close>

definition json_field :: "http_response \<Rightarrow> string \<Rightarrow> js option" where
  "json_field rsp k = (case rsp_body rsp of JsonBody (JObj fs) \<Rightarrow> map_of fs k | _ \<Rightarrow> None)"



definition buffered_exchange :: "AppContext \<Rightarrow> raw_body \<Rightarrow> js \<Rightarrow> bool" where
  "buffered_exchange c raw doc =
     (case getValidatedData raw of
        Inl e \<Rightarrow> False
      | Inr data \<Rightarrow>
          \<not> stream data \<and>
          (case GEMINI_API_KEY c of
             None \<Rightarrow> False
           | Some apiKey \<Rightarrow>
               apiKey \<noteq> [] \<and>
               (case fetch c (provider_call data apiKey) of
                  Inl e \<Rightarrow> False
                | Inr response \<Rightarrow> response_ok response \<and> p_json response = Inr doc)))"

text \<open>The status of the response, if the handler answers.\<close>

definition answered_status :: "(js_error + http_response) \<times> fetch_request list \<Rightarrow> nat option" where
  "answered_status r = (case fst r of Inl e \<Rightarrow> None | Inr rsp \<Rightarrow> Some (rsp_status rsp))"


text \<open>The text the decoder hands to the line loop at each read, in order.\<close>

fun chunk_texts :: "utf8_decoder \<Rightarrow> string list \<Rightarrow> string list" where
  "chunk_texts d [] = []"
| "chunk_texts d (v # vs) = fst (decode d v) # chunk_texts (snd (decode d v)) vs"






section \<open>The provider document of the interface\<close>

text \<open>
  The shape the specification gives to a provider document and to a stream event:
  \<^verbatim>\<open>{ candidates: [ { content: { parts: [ { text } ] } } ], usageMetadata?:
  { promptTokenCount, candidatesTokenCount, totalTokenCount } }\<close>, every field of which
  may be absent, and its JSON form.
\<close>

record text_part =
  part_text :: "string option"

record content =
  content_parts :: "text_part list option"

record candidate =
  candidate_content :: "content option"

record usage_metadata =
  promptTokenCount :: "real option"
  candidatesTokenCount :: "real option"
  totalTokenCount :: "real option"

record provider_document =
  candidates :: "candidate list option"
  usageMetadata :: "usage_metadata option"

definition opt_field :: "string \<Rightarrow> js option \<Rightarrow> (string \<times> js) list" where
  "opt_field k v = (case v of None \<Rightarrow> [] | Some x \<Rightarrow> [(k, x)])"

definition part_js :: "text_part \<Rightarrow> js" where
  "part_js p = JObj (opt_field ''text'' (map_option JStr (part_text p)))"

definition content_js :: "content \<Rightarrow> js" where
  "content_js c =
     JObj (opt_field ''parts'' (map_option (\<lambda>ps. JArr (map part_js ps)) (content_parts c)))"

definition candidate_js :: "candidate \<Rightarrow> js" where
  "candidate_js cand = JObj (opt_field ''content'' (map_option content_js (candidate_content cand)))"

definition usage_js :: "usage_metadata \<Rightarrow> js" where
  "usage_js um =
     JObj (opt_field ''promptTokenCount'' (map_option JNum (promptTokenCount um)) @
           opt_field ''candidatesTokenCount'' (map_option JNum (candidatesTokenCount um)) @
           opt_field ''totalTokenCount'' (map_option JNum (totalTokenCount um)))"

definition document_js :: "provider_document \<Rightarrow> js" where
  "document_js d =
     JObj (opt_field ''candidates'' (map_option (\<lambda>cs. JArr (map candidate_js cs)) (candidates d)) @
           opt_field ''usageMetadata'' (map_option usage_js (usageMetadata d)))"

text \<open>
  Reading a JSON value as a document of that shape. A field that is \<^verbatim>\<open>null\<close> counts as
  absent, fields that the shape does not name are passed over, and a value of another
  type in a named field makes the reading fail.
\<close>

fun part_of_js :: "js \<Rightarrow> text_part option" where
  "part_of_js (JObj fs) =
     (case map_of fs ''text'' of
        None \<Rightarrow> Some \<lparr>part_text = None\<rparr>
      | Some JNull \<Rightarrow> Some \<lparr>part_text = None\<rparr>
      | Some (JStr t) \<Rightarrow> Some \<lparr>part_text = Some t\<rparr>
      | Some v \<Rightarrow> None)"
| "part_of_js v = None"

fun content_of_js :: "js \<Rightarrow> content option" where
  "content_of_js (JObj fs) =
     (case map_of fs ''parts'' of
        None \<Rightarrow> Some \<lparr>content_parts = None\<rparr>
      | Some JNull \<Rightarrow> Some \<lparr>content_parts = None\<rparr>
      | Some (JArr xs) \<Rightarrow>
          map_option (\<lambda>ps. \<lparr>content_parts = Some ps\<rparr>) (those (map part_of_js xs))
      | Some v \<Rightarrow> None)"
| "content_of_js v = None"

fun candidate_of_js :: "js \<Rightarrow> candidate option" where
  "candidate_of_js (JObj fs) =
     (case map_of fs ''content'' of
        None \<Rightarrow> Some \<lparr>candidate_content = None\<rparr>
      | Some JNull \<Rightarrow> Some \<lparr>candidate_content = None\<rparr>
      | Some v \<Rightarrow> map_option (\<lambda>ct. \<lparr>candidate_content = Some ct\<rparr>) (content_of_js v))"
| "candidate_of_js v = None"

definition counter_of_js :: "js option \<Rightarrow> real option option" where
  "counter_of_js v =
     (case v of
        None \<Rightarrow> Some None
      | Some JNull \<Rightarrow> Some None
      | Some (JNum n) \<Rightarrow> Some (Some n)
      | Some w \<Rightarrow> None)"

fun usage_of_js :: "js \<Rightarrow> usage_metadata option" where
  "usage_of_js (JObj fs) =
     (case (counter_of_js (map_of fs ''promptTokenCount''),
            counter_of_js (map_of fs ''candidatesTokenCount''),
            counter_of_js (map_of fs ''totalTokenCount'')) of
        (Some p, Some c, Some t) \<Rightarrow>
          Some \<lparr>promptTokenCount = p, candidatesTokenCount = c, totalTokenCount = t\<rparr>
      | _ \<Rightarrow> None)"
| "usage_of_js v = None"

fun document_of_js :: "js \<Rightarrow> provider_document option" where
  "document_of_js (JObj fs) =
     (case (case map_of fs ''candidates'' of
              None \<Rightarrow> Some None
            | Some JNull \<Rightarrow> Some None
            | Some (JArr xs) \<Rightarrow> map_option Some (those (map candidate_of_js xs))
            | Some v \<Rightarrow> None) of
        None \<Rightarrow> None
      | Some cs \<Rightarrow>
          (case (case map_of fs ''usageMetadata'' of
                   None \<Rightarrow> Some None
                 | Some JNull \<Rightarrow> Some None
                 | Some v \<Rightarrow> map_option Some (usage_of_js v)) of
             None \<Rightarrow> None
           | Some um \<Rightarrow> Some \<lparr>candidates = cs, usageMetadata = um\<rparr>))"
| "document_of_js v = None"

text \<open>
  The specification's extraction: the first text part of the first candidate, the empty
  string if there is none.
\<close>

definition spec_first_text :: "provider_document \<Rightarrow> string" where
  "spec_first_text d =
     (case candidates d of
        None \<Rightarrow> []
      | Some [] \<Rightarrow> []
      | Some (cand # cs) \<Rightarrow>
          (case candidate_content cand of
             None \<Rightarrow> []
           | Some c \<Rightarrow>
               (case content_parts c of
                  None \<Rightarrow> []
                | Some [] \<Rightarrow> []
                | Some (p # ps) \<Rightarrow> (case part_text p of None \<Rightarrow> [] | Some t \<Rightarrow> t))))"

text \<open>What the property chain finds for a text: nothing when the text is empty.\<close>

definition text_found :: "string \<Rightarrow> js option" where
  "text_found s = (if s = [] then None else Some (JStr s))"

text \<open>A counter of the usage block as the response reports it: 0 when it is absent.\<close>

definition counter :: "real option \<Rightarrow> real" where
  "counter n = (case n of None \<Rightarrow> 0 | Some x \<Rightarrow> x)"

text \<open>The same on a loosely typed block: an absent or falsy counter is replaced by 0.\<close>

definition or_zero :: "js option \<Rightarrow> js" where
  "or_zero v = (case v of None \<Rightarrow> JNum 0 | Some x \<Rightarrow> if truthy x then x else JNum 0)"

section \<open>A concrete platform and concrete exchanges\<close>

text \<open>
  The examples below run on \<open>engine\<close>: a parser for the part of JSON without string
  escapes, fractions and exponents (on which it agrees with \<^verbatim>\<open>JSON.parse\<close>; of two
  bindings of a key the later one is put first; outside that part it answers \<open>None\<close>),
  and the decimal printing of integers.
\<close>

definition skip_ws :: "string \<Rightarrow> string" where
  "skip_ws s = dropWhile (\<lambda>c. c = CHR '' '' \<or> c = CHR 0x09 \<or> c = CHR 0x0A \<or> c = CHR 0x0D) s"

fun parse_string_body :: "string \<Rightarrow> (string \<times> string) option" where
  "parse_string_body [] = None"
| "parse_string_body (c # cs) =
     (if c = CHR 0x22 then Some ([], cs)
      else if c = CHR 0x5C \<or> byte c < 0x20 then None
      else (case parse_string_body cs of None \<Rightarrow> None | Some (s, r) \<Rightarrow> Some (c # s, r)))"

definition is_digit :: "char \<Rightarrow> bool" where
  "is_digit c = (0x30 \<le> byte c \<and> byte c \<le> 0x39)"

fun parse_digits :: "nat \<Rightarrow> string \<Rightarrow> nat \<times> string" where
  "parse_digits acc [] = (acc, [])"
| "parse_digits acc (c # cs) =
     (if is_digit c then parse_digits (10 * acc + (byte c - 0x30)) cs else (acc, c # cs))"

definition parse_number :: "string \<Rightarrow> (js \<times> string) option" where
  "parse_number s =
     (let (neg, t) =
        (case s of [] \<Rightarrow> (False, s) | c # cs \<Rightarrow> if c = CHR ''-'' then (True, cs) else (False, s))
      in case t of
        [] \<Rightarrow> None
      | c # cs \<Rightarrow>
          if \<not> is_digit c then None
          else if c = CHR ''0'' then Some (JNum 0, cs)
          else (let (n, r) = parse_digits 0 t
                in Some (JNum (if neg then - real n else real n), r)))"

fun parse_value :: "nat \<Rightarrow> string \<Rightarrow> (js \<times> string) option"
and parse_items :: "nat \<Rightarrow> string \<Rightarrow> (js list \<times> string) option"
and parse_fields :: "nat \<Rightarrow> string \<Rightarrow> ((string \<times> js) list \<times> string) option" where
  "parse_value 0 s = None"
| "parse_value (Suc n) s =
     (case skip_ws s of
        [] \<Rightarrow> None
      | c # cs \<Rightarrow>
          if c = CHR ''{'' then
            (case skip_ws cs of
               [] \<Rightarrow> None
             | d # r \<Rightarrow>
                 if d = CHR ''}'' then Some (JObj [], r)
                 else (case parse_fields n cs of
                         None \<Rightarrow> None
                       | Some (fs, r') \<Rightarrow> Some (JObj fs, r')))
          else if c = CHR ''['' then
            (case skip_ws cs of
               [] \<Rightarrow> None
             | d # r \<Rightarrow>
                 if d = CHR '']'' then Some (JArr [], r)
                 else (case parse_items n cs of
                         None \<Rightarrow> None
                       | Some (xs, r') \<Rightarrow> Some (JArr xs, r')))
          else if c = CHR 0x22 then
            (case parse_string_body cs of None \<Rightarrow> None | Some (t, r) \<Rightarrow> Some (JStr t, r))
          else if starts_with ''true'' (c # cs) then Some (JBool True, drop 4 (c # cs))
          else if starts_with ''false'' (c # cs) then Some (JBool False, drop 5 (c # cs))
          else if starts_with ''null'' (c # cs) then Some (JNull, drop 4 (c # cs))
          else parse_number (c # cs))"
| "parse_items 0 s = None"
| "parse_items (Suc n) s =
     (case parse_value n s of
        None \<Rightarrow> None
      | Some (v, r) \<Rightarrow>
          (case skip_ws r of
             [] \<Rightarrow> None
           | d # r' \<Rightarrow>
               if d = CHR '']'' then Some ([v], r')
               else if d = CHR '','' then
                 (case parse_items n r' of None \<Rightarrow> None | Some (vs, r'') \<Rightarrow> Some (v # vs, r''))
               else None))"
| "parse_fields 0 s = None"
| "parse_fields (Suc n) s =
     (case skip_ws s of
        [] \<Rightarrow> None
      | q # s1 \<Rightarrow>
          if q \<noteq> CHR 0x22 then None
          else (case parse_string_body s1 of
             None \<Rightarrow> None
           | Some (k, s2) \<Rightarrow>
               (case skip_ws s2 of
                  [] \<Rightarrow> None
                | col # s3 \<Rightarrow>
                    if col \<noteq> CHR '':'' then None
                    else (case parse_value n s3 of
                       None \<Rightarrow> None
                     | Some (v, s4) \<Rightarrow>
                         (case skip_ws s4 of
                            [] \<Rightarrow> None
                          | d # s5 \<Rightarrow>
                              if d = CHR ''}'' then Some ([(k, v)], s5)
                              else if d = CHR '','' then
                                (case parse_fields n s5 of
                                   None \<Rightarrow> None
                                 | Some (fs, s6) \<Rightarrow> Some (fs @ [(k, v)], s6))
                              else None)))))"

definition json_parse :: "string \<Rightarrow> js option" where
  "json_parse s =
     (case parse_value (2 * length s + 2) s of
        None \<Rightarrow> None
      | Some (v, r) \<Rightarrow> if skip_ws r = [] then Some v else None)"

function nat_str :: "nat \<Rightarrow> string" where
  "nat_str n =
     (if n < 10 then [char_of (48 + n)] else nat_str (n div 10) @ [char_of (48 + n mod 10)])"
  by pat_completeness auto
termination
  by (relation "measure id") auto

definition int_str :: "real \<Rightarrow> string" where
  "int_str x = (if x < 0 then CHR ''-'' # nat_str (nat (- \<lfloor>x\<rfloor>)) else nat_str (nat \<lfloor>x\<rfloor>))"

definition engine :: platform where
  "engine = \<lparr>JSON_parse = json_parse, Number_toString = int_str\<rparr>"






text \<open>
  The provider document of the specification's end-to-end example, and a JSON reply that
  carries it among fields the interface does not name.
\<close>

definition doc_hello :: provider_document where
  "doc_hello =
     \<lparr>candidates =
        Some [\<lparr>candidate_content =
                 Some \<lparr>content_parts = Some [\<lparr>part_text = Some ''hello''\<rparr>]\<rparr>\<rparr>],
      usageMetadata =
        Some \<lparr>promptTokenCount = Some 1, candidatesTokenCount = Some 1,
               totalTokenCount = Some 2\<rparr>\<rparr>"

definition reply_hello :: js where
  "reply_hello =
     JObj [(''candidates'',
            JArr [JObj [(''content'',
                         JObj [(''parts'', JArr [JObj [(''text'', JStr ''hello'')]]),
                               (''role'', JStr ''model'')]),
                        (''finishReason'', JStr ''STOP'')]]),
           (''usageMetadata'',
            JObj [(''promptTokenCount'', JNum 1), (''candidatesTokenCount'', JNum 1),
                  (''totalTokenCount'', JNum 2)]),
           (''modelVersion'', JStr ''gemini-2.0-flash'')]"

text \<open>A reply whose usage block gives one counter, leaves one out and has one \<^verbatim>\<open>null\<close>.\<close>

definition doc_partial_usage :: provider_document where
  "doc_partial_usage =
     \<lparr>candidates = Some [],
      usageMetadata =
        Some \<lparr>promptTokenCount = Some 7, candidatesTokenCount = None,
               totalTokenCount = None\<rparr>\<rparr>"

definition reply_partial_usage :: js where
  "reply_partial_usage =
     JObj [(''candidates'', JArr []),
           (''usageMetadata'', JObj [(''promptTokenCount'', JNum 7), (''totalTokenCount'', JNull)])]"

text \<open>
  Request bodies that give only \<^verbatim>\<open>message\<close> and \<^verbatim>\<open>stream\<close>, and one without a message.
\<close>

definition chat_body :: "string \<Rightarrow> bool \<Rightarrow> raw_body" where
  "chat_body msg strm =
     \<lparr>raw_message = JStr msg, raw_conversation_id = JUndefined, raw_temperature = JUndefined,
      raw_max_tokens = JUndefined, raw_stream = JBool strm\<rparr>"

definition body_without_message :: raw_body where
  "body_without_message =
     \<lparr>raw_message = JUndefined, raw_conversation_id = JUndefined, raw_temperature = JUndefined,
      raw_max_tokens = JUndefined, raw_stream = JUndefined\<rparr>"

text \<open>
  Provider answers: a success whose body is read as a stream, a success whose body is the
  JSON document \<open>doc\<close>, and a failure with status \<open>st\<close> whose error text is read with
  the outcome \<open>txt\<close>.
\<close>

definition stream_answer :: "read_result list \<Rightarrow> provider_response" where
  "stream_answer reads =
     \<lparr>p_status = 200, p_text = Inl TypeError, p_json = Inl TypeError, p_body = Some reads\<rparr>"

definition document_answer :: "js \<Rightarrow> provider_response" where
  "document_answer doc =
     \<lparr>p_status = 200, p_text = Inl TypeError, p_json = Inr doc, p_body = Some []\<rparr>"


text \<open>A context with the key \<open>key\<close> whose provider gives the same answer to every call.\<close>

definition app_context :: "string option \<Rightarrow> provider_response \<Rightarrow> AppContext" where
  "app_context key answer =
     \<lparr>GEMINI_API_KEY = key, fetch = (\<lambda>call. Inr answer),
      generateConversationId = ''conv_1704067200000_abc123def''\<rparr>"

section \<open>The decoder and the line loop\<close>




















section \<open>The read loop\<close>







section \<open>Routing\<close>


section \<open>The property chain on a document of the interface\<close>

lemma part_chain:
  assumes "part_of_js p = Some tp"
  shows "truthy p" and
    "guarded (js_dot p ''text'') (\<lambda>text. Inr (Some text)) =
       Inr (text_found (case part_text tp of None \<Rightarrow> [] | Some t \<Rightarrow> t))"
  using assms
  by (cases p; auto simp: guarded_def text_found_def split: option.splits js.splits)+

lemma content_chain:
  assumes "content_of_js c = Some ct"
  shows "truthy c" and
    "guarded (js_dot c ''parts'') (\<lambda>parts.
       guarded (js_index0 parts) (\<lambda>part.
       guarded (js_dot part ''text'') (\<lambda>text. Inr (Some text)))) =
     Inr (text_found
       (case content_parts ct of
          None \<Rightarrow> []
        | Some [] \<Rightarrow> []
        | Some (p # ps) \<Rightarrow> (case part_text p of None \<Rightarrow> [] | Some t \<Rightarrow> t)))"
proof -
  from assms obtain fs where c: "c = JObj fs" by (cases c) auto
  then show "truthy c" by simp
  show "guarded (js_dot c ''parts'') (\<lambda>parts.
       guarded (js_index0 parts) (\<lambda>part.
       guarded (js_dot part ''text'') (\<lambda>text. Inr (Some text)))) =
     Inr (text_found
       (case content_parts ct of
          None \<Rightarrow> []
        | Some [] \<Rightarrow> []
        | Some (p # ps) \<Rightarrow> (case part_text p of None \<Rightarrow> [] | Some t \<Rightarrow> t)))"
  proof (cases "map_of fs ''parts''")
    case None
    with assms c show ?thesis by (auto simp: guarded_def text_found_def)
  next
    case (Some v)
    show ?thesis
    proof (cases v)
      case JNull
      with assms c Some show ?thesis by (auto simp: guarded_def text_found_def)
    next
      case (JArr xs)
      show ?thesis
      proof (cases xs)
        case Nil
        with assms c Some JArr show ?thesis by (auto simp: guarded_def text_found_def)
      next
        case (Cons x xs')
        with assms c Some JArr obtain tp tps where
          x: "part_of_js x = Some tp" and ct: "content_parts ct = Some (tp # tps)"
          by (auto split: option.splits)
        from part_chain[OF x] c Some JArr Cons ct show ?thesis
          by (simp add: guarded_def)
      qed
    qed (use assms c Some in auto)
  qed
qed

lemma candidate_chain:
  assumes "candidate_of_js x = Some cand"
  shows "truthy x" and
    "guarded (js_dot x ''content'') (\<lambda>content.
       guarded (js_dot content ''parts'') (\<lambda>parts.
       guarded (js_index0 parts) (\<lambda>part.
       guarded (js_dot part ''text'') (\<lambda>text. Inr (Some text))))) =
     Inr (text_found
       (case candidate_content cand of
          None \<Rightarrow> []
        | Some ct \<Rightarrow>
            (case content_parts ct of
               None \<Rightarrow> []
             | Some [] \<Rightarrow> []
             | Some (p # ps) \<Rightarrow> (case part_text p of None \<Rightarrow> [] | Some t \<Rightarrow> t))))"
proof -
  from assms obtain fs where x: "x = JObj fs" by (cases x) auto
  then show "truthy x" by simp
  show "guarded (js_dot x ''content'') (\<lambda>content.
       guarded (js_dot content ''parts'') (\<lambda>parts.
       guarded (js_index0 parts) (\<lambda>part.
       guarded (js_dot part ''text'') (\<lambda>text. Inr (Some text))))) =
     Inr (text_found
       (case candidate_content cand of
          None \<Rightarrow> []
        | Some ct \<Rightarrow>
            (case content_parts ct of
               None \<Rightarrow> []
             | Some [] \<Rightarrow> []
             | Some (p # ps) \<Rightarrow> (case part_text p of None \<Rightarrow> [] | Some t \<Rightarrow> t))))"
  proof (cases "map_of fs ''content''")
    case None
    with assms x show ?thesis by (auto simp: guarded_def text_found_def)
  next
    case (Some v)
    show ?thesis
    proof (cases "v = JNull")
      case True
      with assms x Some show ?thesis by (auto simp: guarded_def text_found_def)
    next
      case False
      with assms x Some obtain ct where
        v: "content_of_js v = Some ct" and cc: "candidate_content cand = Some ct"
        by (cases v) (auto split: option.splits)
      from content_chain[OF v] x Some cc show ?thesis
        by (simp add: guarded_def)
    qed
  qed
qed

lemma first_text_of_document:
  assumes "document_of_js doc = Some d"
  shows "first_text doc = Inr (text_found (spec_first_text d))"
proof -
  from assms obtain fs where doc: "doc = JObj fs" by (cases doc) auto
  show ?thesis
  proof (cases "map_of fs ''candidates''")
    case None
    with assms doc show ?thesis
      by (auto simp: first_text_def guarded_def text_found_def spec_first_text_def
               split: option.splits)
  next
    case (Some v)
    show ?thesis
    proof (cases v)
      case JNull
      with assms doc Some show ?thesis
        by (auto simp: first_text_def guarded_def text_found_def spec_first_text_def
                 split: option.splits)
    next
      case (JArr xs)
      show ?thesis
      proof (cases xs)
        case Nil
        with assms doc Some JArr show ?thesis
          by (auto simp: first_text_def guarded_def text_found_def spec_first_text_def
                   split: option.splits)
      next
        case (Cons x xs')
        with assms doc Some JArr obtain cand cands where
          x: "candidate_of_js x = Some cand" and cs: "candidates d = Some (cand # cands)"
          by (auto split: option.splits)
        from candidate_chain[OF x] doc Some JArr Cons cs show ?thesis
          by (simp add: first_text_def guarded_def spec_first_text_def)
      qed
    qed (use assms doc Some in \<open>auto split: option.splits\<close>)
  qed
qed



section \<open>The streaming translator: what is emitted\<close>




section \<open>The streaming translator: reads and lines\<close>

text \<open>
  The decoder is carried from one read to the next: a character whose bytes lie across two
  reads is decoded once its last byte has arrived.
\<close>

lemma decoder_keeps_split_character:
  "chunk_texts new_TextDecoder [[CHR 0xE2, CHR 0x82], [CHR 0xAC]] = [[], [CHR 0xE2, CHR 0x82, CHR 0xAC]]"
  by code_simp






section \<open>The streaming translator: how the stream ends\<close>



section \<open>The buffered translator\<close>

lemma handle_buffered:
  assumes "buffered_exchange c raw doc"
  shows "\<exists>response cid. p_json response = Inr doc \<and>
           fst (handle pf c raw) = handleNormalResponse response cid"
  using assms
  by (auto simp: buffered_exchange_def handle_def split: sum.splits option.splits)

lemma usage_of_block:
  "usage_of (JObj fs) =
     Inr (JObj [(''prompt_tokens'', or_zero (map_of fs ''promptTokenCount'')),
                (''completion_tokens'', or_zero (map_of fs ''candidatesTokenCount'')),
                (''total_tokens'', or_zero (map_of fs ''totalTokenCount''))])"
  by (simp add: usage_of_def then_do_def js_or_def or_zero_def split: option.splits)

lemma or_zero_counter_of_js:
  assumes "counter_of_js v = Some n"
  shows "js_or (case v of None \<Rightarrow> JUndefined | Some w \<Rightarrow> w) (JNum 0) = JNum (counter n)"
  using assms
  by (auto simp: counter_of_js_def js_or_def counter_def split: option.splits js.splits)

lemma usage_of_typed:
  assumes "usage_of_js um = Some u"
  shows "truthy um" and
    "usage_of um =
       Inr (JObj [(''prompt_tokens'', JNum (counter (promptTokenCount u))),
                  (''completion_tokens'', JNum (counter (candidatesTokenCount u))),
                  (''total_tokens'', JNum (counter (totalTokenCount u)))])"
proof -
  from assms obtain fs where um: "um = JObj fs" by (cases um) auto
  then show "truthy um" by simp
  from assms um obtain p c t where
    p: "counter_of_js (map_of fs ''promptTokenCount'') = Some p" and
    c: "counter_of_js (map_of fs ''candidatesTokenCount'') = Some c" and
    t: "counter_of_js (map_of fs ''totalTokenCount'') = Some t" and
    u: "u = \<lparr>promptTokenCount = p, candidatesTokenCount = c, totalTokenCount = t\<rparr>"
    by (auto split: option.splits)
  show "usage_of um =
       Inr (JObj [(''prompt_tokens'', JNum (counter (promptTokenCount u))),
                  (''completion_tokens'', JNum (counter (candidatesTokenCount u))),
                  (''total_tokens'', JNum (counter (totalTokenCount u)))])"
    using or_zero_counter_of_js[OF p] or_zero_counter_of_js[OF c] or_zero_counter_of_js[OF t]
    by (simp add: um u usage_of_def then_do_def)
qed

lemma usageMetadata_of_document:
  assumes "document_of_js doc = Some d"
  shows "\<exists>um. js_dot doc ''usageMetadata'' = Inr um \<and>
           (case usageMetadata d of
              None \<Rightarrow> \<not> truthy um
            | Some u \<Rightarrow> usage_of_js um = Some u)"
proof -
  from assms obtain fs where doc: "doc = JObj fs" by (cases doc) auto
  show ?thesis
  proof (cases "map_of fs ''usageMetadata''")
    case None
    with assms doc show ?thesis by (auto split: option.splits)
  next
    case (Some v)
    show ?thesis
    proof (cases "v = JNull")
      case True
      with assms doc Some show ?thesis by (auto split: option.splits)
    next
      case False
      with assms doc Some show ?thesis
        by (cases v) (auto split: option.splits)
    qed
  qed
qed

lemma handleNormalResponse_of_document:
  assumes "p_json response = Inr doc" and "document_of_js doc = Some d"
  shows "handleNormalResponse response cid =
     Inr \<lparr>rsp_status = 200, rsp_headers = [],
          rsp_body = JsonBody (JObj
            ([(''success'', JBool True), (''conversation_id'', JStr cid),
              (''message'', JStr (spec_first_text d))] @
             (case usageMetadata d of
                None \<Rightarrow> []
              | Some um \<Rightarrow>
                  [(''usage'',
                    JObj [(''prompt_tokens'', JNum (counter (promptTokenCount um))),
                          (''completion_tokens'', JNum (counter (candidatesTokenCount um))),
                          (''total_tokens'', JNum (counter (totalTokenCount um)))])])))\<rparr>"
proof -
  obtain um where um: "js_dot doc ''usageMetadata'' = Inr um"
    and shape: "case usageMetadata d of None \<Rightarrow> \<not> truthy um | Some u \<Rightarrow> usage_of_js um = Some u"
    using usageMetadata_of_document[OF assms(2)] by blast
  show ?thesis
  proof (cases "usageMetadata d")
    case None
    with shape have "usage_of um = Inr JUndefined" by (simp add: usage_of_def)
    with None show ?thesis
      using assms(1)
      by (simp add: handleNormalResponse_def then_do_def first_text_of_document[OF assms(2)]
            um c_json_def text_found_def)
  next
    case (Some u)
    with shape have "usage_of_js um = Some u" by simp
    from usage_of_typed(2)[OF this] Some show ?thesis
      using assms(1)
      by (simp add: handleNormalResponse_def then_do_def first_text_of_document[OF assms(2)]
            um c_json_def text_found_def)
  qed
qed

lemma buffered_response:
  assumes "buffered_exchange c raw doc" and "document_of_js doc = Some d"
  shows "\<exists>rsp. fst (handle pf c raw) = Inr rsp \<and> rsp_status rsp = 200 \<and>
           json_field rsp ''success'' = Some (JBool True) \<and>
           json_field rsp ''message'' = Some (JStr (spec_first_text d)) \<and>
           json_field rsp ''usage'' =
             (case usageMetadata d of
                None \<Rightarrow> None
              | Some um \<Rightarrow>
                  Some (JObj [(''prompt_tokens'', JNum (counter (promptTokenCount um))),
                              (''completion_tokens'', JNum (counter (candidatesTokenCount um))),
                              (''total_tokens'', JNum (counter (totalTokenCount um)))]))"
proof -
  obtain response cid where r: "p_json response = Inr doc"
    and h: "fst (handle pf c raw) = handleNormalResponse response cid"
    using handle_buffered[OF assms(1)] by blast
  show ?thesis
    unfolding h handleNormalResponse_of_document[OF r assms(2)]
    by (simp add: json_field_def split: option.splits)
qed

section \<open>The JSON form of a document reads back as the document\<close>

lemma map_of_usage_fields:
  "map_of (opt_field ''promptTokenCount'' a @ opt_field ''candidatesTokenCount'' b @
           opt_field ''totalTokenCount'' t) ''promptTokenCount'' = a"
  "map_of (opt_field ''promptTokenCount'' a @ opt_field ''candidatesTokenCount'' b @
           opt_field ''totalTokenCount'' t) ''candidatesTokenCount'' = b"
  "map_of (opt_field ''promptTokenCount'' a @ opt_field ''candidatesTokenCount'' b @
           opt_field ''totalTokenCount'' t) ''totalTokenCount'' = t"
  by (cases a; cases b; cases t; simp add: opt_field_def)+

lemma part_of_part_js: "part_of_js (part_js p) = Some p"
  by (cases p) (simp add: part_js_def opt_field_def split: option.splits)

lemma those_map_inverse:
  assumes "\<And>x. f (g x) = Some x"
  shows "those (map (f \<circ> g) xs) = Some xs"
  by (induction xs) (simp_all add: assms)

lemma content_of_content_js: "content_of_js (content_js c) = Some c"
proof (cases c)
  case (fields ps)
  show ?thesis
  proof (cases ps)
    case None
    with fields show ?thesis by (simp add: content_js_def opt_field_def)
  next
    case (Some xs)
    with fields show ?thesis
      by (simp add: content_js_def opt_field_def
            those_map_inverse[of part_of_js part_js, OF part_of_part_js])
  qed
qed

lemma candidate_of_candidate_js: "candidate_of_js (candidate_js c) = Some c"
proof (cases c)
  case (fields ct)
  show ?thesis
  proof (cases ct)
    case None
    with fields show ?thesis by (simp add: candidate_js_def opt_field_def)
  next
    case (Some x)
    have "content_js x \<noteq> JNull" by (simp add: content_js_def)
    with fields Some show ?thesis
      using content_of_content_js[of x]
      by (cases "content_js x") (simp_all add: candidate_js_def opt_field_def)
  qed
qed

lemma counter_of_js_JNum: "counter_of_js (map_option JNum n) = Some n"
  by (cases n) (simp_all add: counter_of_js_def)

lemma usage_of_usage_js_typed: "usage_of_js (usage_js u) = Some u"
  by (cases u) (simp add: usage_js_def map_of_usage_fields counter_of_js_JNum del: map_of_append)

lemma map_of_document_fields:
  "map_of (opt_field ''candidates'' a @ opt_field ''usageMetadata'' b) ''candidates'' = a"
  "map_of (opt_field ''candidates'' a @ opt_field ''usageMetadata'' b) ''usageMetadata'' = b"
  by (cases a; cases b; simp add: opt_field_def)+

lemma document_of_document_js: "document_of_js (document_js d) = Some d"
proof (cases d)
  case (fields cs um)
  have c: "(case map_option (\<lambda>cs. JArr (map candidate_js cs)) cs of
              None \<Rightarrow> Some None
            | Some JNull \<Rightarrow> Some None
            | Some (JArr xs) \<Rightarrow> map_option Some (those (map candidate_of_js xs))
            | Some v \<Rightarrow> None) = Some cs"
    by (cases cs)
       (simp_all add: those_map_inverse[of candidate_of_js candidate_js, OF candidate_of_candidate_js])
  have u: "(case map_option usage_js um of
              None \<Rightarrow> Some None
            | Some JNull \<Rightarrow> Some None
            | Some v \<Rightarrow> map_option Some (usage_of_js v)) = Some um"
  proof (cases um)
    case None
    then show ?thesis by simp
  next
    case (Some x)
    obtain fs where fs: "usage_js x = JObj fs" by (simp add: usage_js_def)
    from usage_of_usage_js_typed[of x] show ?thesis
      unfolding Some by (simp add: fs)
  qed
  show ?thesis
    by (simp only: fields document_js_def provider_document.select_convs document_of_js.simps
          map_of_document_fields c u option.case)
qed

lemma reply_hello_document: "document_of_js reply_hello = Some doc_hello"
  by (simp add: reply_hello_def doc_hello_def counter_of_js_def)

lemma reply_partial_usage_document: "document_of_js reply_partial_usage = Some doc_partial_usage"
  by (simp add: reply_partial_usage_def doc_partial_usage_def counter_of_js_def)

section \<open>The buffered translator: message and usage\<close>

text \<open>
  Claim C6. In a buffered exchange on a provider document of the interface, the endpoint
  answers 200 with \<^verbatim>\<open>success: true\<close> and a \<^verbatim>\<open>message\<close> that is the first text part of
  the document's first candidate, the empty string when there is no candidate, no content
  or no text part.
\<close>

theorem buffered_message_is_first_text:
  assumes "buffered_exchange c raw doc"
      and "document_of_js doc = Some d"
  shows "\<exists>rsp. fst (handle pf c raw) = Inr rsp \<and> rsp_status rsp = 200 \<and>
           json_field rsp ''success'' = Some (JBool True) \<and>
           json_field rsp ''message'' = Some (JStr (spec_first_text d))"
  using buffered_response[OF assms, of pf] by blast

text \<open>The end-to-end example of the specification.\<close>

theorem buffered_message_is_first_text_witness:
  "buffered_exchange (app_context (Some ''k'') (document_answer reply_hello))
     (chat_body ''hi'' False) reply_hello
   \<and> document_of_js reply_hello = Some doc_hello
   \<and> spec_first_text doc_hello = ''hello''
   \<and> (\<exists>rsp. fst (handle engine (app_context (Some ''k'') (document_answer reply_hello))
               (chat_body ''hi'' False)) = Inr rsp \<and> rsp_status rsp = 200 \<and>
           json_field rsp ''success'' = Some (JBool True) \<and>
           json_field rsp ''message'' = Some (JStr ''hello''))"
proof -
  have h: "buffered_exchange (app_context (Some ''k'') (document_answer reply_hello))
     (chat_body ''hi'' False) reply_hello"
    by (simp add: buffered_exchange_def app_context_def document_answer_def chat_body_def
          getValidatedData_def message_issues_def conversation_id_issues_def
          temperature_issues_def max_tokens_issues_def stream_issues_def response_ok_def)
  have t: "spec_first_text doc_hello = ''hello''"
    by (simp add: spec_first_text_def doc_hello_def)
  from buffered_message_is_first_text[OF h reply_hello_document, of engine]
    h reply_hello_document t
  show ?thesis by simp
qed

text \<open>
  Claim C7. The response has a \<^verbatim>\<open>usage\<close> field exactly when the document has a
  usage-metadata block, and the counters \<^verbatim>\<open>promptTokenCount\<close>,
  \<^verbatim>\<open>candidatesTokenCount\<close>, \<^verbatim>\<open>totalTokenCount\<close> of the block are reported as
  \<^verbatim>\<open>prompt_tokens\<close>, \<^verbatim>\<open>completion_tokens\<close>, \<^verbatim>\<open>total_tokens\<close>.
\<close>

theorem usage_present_iff_block:
  assumes "buffered_exchange c raw doc"
      and "document_of_js doc = Some d"
  shows "\<exists>rsp. fst (handle pf c raw) = Inr rsp \<and>
           (json_field rsp ''usage'' = None \<longleftrightarrow> usageMetadata d = None) \<and>
           (\<forall>p ct t.
              usageMetadata d =
                Some \<lparr>promptTokenCount = Some p, candidatesTokenCount = Some ct,
                      totalTokenCount = Some t\<rparr> \<longrightarrow>
              json_field rsp ''usage'' =
                Some (JObj [(''prompt_tokens'', JNum p), (''completion_tokens'', JNum ct),
                            (''total_tokens'', JNum t)]))"
proof -
  obtain rsp where r: "fst (handle pf c raw) = Inr rsp"
    and u: "json_field rsp ''usage'' =
             (case usageMetadata d of
                None \<Rightarrow> None
              | Some um \<Rightarrow>
                  Some (JObj [(''prompt_tokens'', JNum (counter (promptTokenCount um))),
                              (''completion_tokens'', JNum (counter (candidatesTokenCount um))),
                              (''total_tokens'', JNum (counter (totalTokenCount um)))]))"
    using buffered_response[OF assms, of pf] by blast
  show ?thesis
    using r u by (auto simp: counter_def split: option.splits)
qed

text \<open>The usage block of the specification's example.\<close>

theorem usage_present_iff_block_witness:
  "buffered_exchange (app_context (Some ''k'') (document_answer reply_hello))
     (chat_body ''hi'' False) reply_hello
   \<and> document_of_js reply_hello = Some doc_hello
   \<and> usageMetadata doc_hello =
       Some \<lparr>promptTokenCount = Some 1, candidatesTokenCount = Some 1, totalTokenCount = Some 2\<rparr>
   \<and> (\<exists>rsp. fst (handle engine (app_context (Some ''k'') (document_answer reply_hello))
               (chat_body ''hi'' False)) = Inr rsp \<and>
           json_field rsp ''usage'' =
             Some (JObj [(''prompt_tokens'', JNum 1), (''completion_tokens'', JNum 1),
                         (''total_tokens'', JNum 2)]))"
proof -
  have h: "buffered_exchange (app_context (Some ''k'') (document_answer reply_hello))
     (chat_body ''hi'' False) reply_hello"
    by (simp add: buffered_exchange_def app_context_def document_answer_def chat_body_def
          getValidatedData_def message_issues_def conversation_id_issues_def
          temperature_issues_def max_tokens_issues_def stream_issues_def response_ok_def)
  have u: "usageMetadata doc_hello =
       Some \<lparr>promptTokenCount = Some 1, candidatesTokenCount = Some 1, totalTokenCount = Some 2\<rparr>"
    by (simp add: doc_hello_def)
  from usage_present_iff_block[OF h reply_hello_document, of engine] h reply_hello_document u
  show ?thesis by blast
qed

text \<open>
  Claim C10. When the document has a usage-metadata block, both buffered translators, the
  one on \<^verbatim>\<open>fetch\<close> and the one on the SDK, report three numeric counters: a counter
  that the block lacks is reported as 0, like one the provider gave as 0. On a loosely
  typed block every absent or falsy counter is replaced by 0.
\<close>

theorem usage_counters_default_to_zero:
  assumes "buffered_exchange c raw doc"
      and "document_of_js doc = Some d"
      and "usageMetadata d = Some um"
      and "usage_of_js block = Some um"
  shows "(\<exists>rsp. fst (handle pf c raw) = Inr rsp \<and>
            json_field rsp ''usage'' =
              Some (JObj [(''prompt_tokens'', JNum (counter (promptTokenCount um))),
                          (''completion_tokens'', JNum (counter (candidatesTokenCount um))),
                          (''total_tokens'', JNum (counter (totalTokenCount um)))]))
         \<and> json_field
             (handleNormalResponseWithSDK
                (Inr \<lparr>sdk_text = Inr reply, sdk_usageMetadata = block\<rparr>) cid) ''usage'' =
              Some (JObj [(''prompt_tokens'', JNum (counter (promptTokenCount um))),
                          (''completion_tokens'', JNum (counter (candidatesTokenCount um))),
                          (''total_tokens'', JNum (counter (totalTokenCount um)))])
         \<and> usage_of (JObj fs) =
              Inr (JObj [(''prompt_tokens'', or_zero (map_of fs ''promptTokenCount'')),
                         (''completion_tokens'', or_zero (map_of fs ''candidatesTokenCount'')),
                         (''total_tokens'', or_zero (map_of fs ''totalTokenCount''))])
         \<and> (\<forall>v. \<not> truthy v \<longrightarrow> or_zero (Some v) = JNum 0)
         \<and> or_zero None = JNum 0
         \<and> counter None = counter (Some 0)"
proof -
  have a: "\<exists>rsp. fst (handle pf c raw) = Inr rsp \<and>
            json_field rsp ''usage'' =
              Some (JObj [(''prompt_tokens'', JNum (counter (promptTokenCount um))),
                          (''completion_tokens'', JNum (counter (candidatesTokenCount um))),
                          (''total_tokens'', JNum (counter (totalTokenCount um)))])"
    using buffered_response[OF assms(1,2), of pf] assms(3) by auto
  have b: "json_field
             (handleNormalResponseWithSDK
                (Inr \<lparr>sdk_text = Inr reply, sdk_usageMetadata = block\<rparr>) cid) ''usage'' =
              Some (JObj [(''prompt_tokens'', JNum (counter (promptTokenCount um))),
                          (''completion_tokens'', JNum (counter (candidatesTokenCount um))),
                          (''total_tokens'', JNum (counter (totalTokenCount um)))])"
    by (simp add: handleNormalResponseWithSDK_def then_do_def usage_of_typed(2)[OF assms(4)]
          c_json_def json_field_def)
  show ?thesis
    using a b by (simp add: usage_of_block or_zero_def counter_def)
qed

text \<open>A block with one counter: the two others are reported as 0.\<close>

theorem usage_counters_default_to_zero_witness:
  "buffered_exchange (app_context (Some ''k'') (document_answer reply_partial_usage))
     (chat_body ''hi'' False) reply_partial_usage
   \<and> document_of_js reply_partial_usage = Some doc_partial_usage
   \<and> usageMetadata doc_partial_usage =
       Some \<lparr>promptTokenCount = Some 7, candidatesTokenCount = None, totalTokenCount = None\<rparr>
   \<and> usage_of_js (JObj [(''promptTokenCount'', JNum 7), (''totalTokenCount'', JNull)]) =
       Some \<lparr>promptTokenCount = Some 7, candidatesTokenCount = None, totalTokenCount = None\<rparr>
   \<and> \<not> truthy JNull
   \<and> (\<exists>rsp. fst (handle engine
               (app_context (Some ''k'') (document_answer reply_partial_usage))
               (chat_body ''hi'' False)) = Inr rsp \<and>
           json_field rsp ''usage'' =
             Some (JObj [(''prompt_tokens'', JNum 7), (''completion_tokens'', JNum 0),
                         (''total_tokens'', JNum 0)]))
   \<and> json_field
        (handleNormalResponseWithSDK
           (Inr \<lparr>sdk_text = Inr ''hello'',
                 sdk_usageMetadata =
                   JObj [(''promptTokenCount'', JNum 7), (''totalTokenCount'', JNull)]\<rparr>)
           ''conv_1'') ''usage'' =
        Some (JObj [(''prompt_tokens'', JNum 7), (''completion_tokens'', JNum 0),
                    (''total_tokens'', JNum 0)])
   \<and> or_zero (Some JNull) = JNum 0"
proof -
  have h: "buffered_exchange
     (app_context (Some ''k'') (document_answer reply_partial_usage))
     (chat_body ''hi'' False) reply_partial_usage"
    by (simp add: buffered_exchange_def app_context_def document_answer_def chat_body_def
          getValidatedData_def message_issues_def conversation_id_issues_def
          temperature_issues_def max_tokens_issues_def stream_issues_def response_ok_def)
  have u: "usageMetadata doc_partial_usage =
       Some \<lparr>promptTokenCount = Some 7, candidatesTokenCount = None, totalTokenCount = None\<rparr>"
    by (simp add: doc_partial_usage_def)
  have b: "usage_of_js (JObj [(''promptTokenCount'', JNum 7), (''totalTokenCount'', JNull)]) =
       Some \<lparr>promptTokenCount = Some 7, candidatesTokenCount = None, totalTokenCount = None\<rparr>"
    by (simp add: counter_of_js_def)
  have n: "\<not> truthy JNull" by simp
  from usage_counters_default_to_zero[OF h reply_partial_usage_document u b,
      where pf = engine and reply = "''hello''" and cid = "''conv_1''"]
    h reply_partial_usage_document u b n
  show ?thesis by (simp add: counter_def)
qed

section \<open>The handler: validation, credential, provider failure\<close>

text \<open>
  Claim C5, as amended. A request whose \<^verbatim>\<open>message\<close> is absent or empty fails validation
  on that field and no provider call is made. A message of one or more characters passes
  the check on \<^verbatim>\<open>message\<close>, also when all of them are white space: the schema asks
  for a minimum length of 1 and trims nothing.
\<close>

theorem missing_message_fails_validation:
  assumes "raw_message raw = JUndefined \<or> raw_message raw = JStr []"
  shows "(\<exists>issues. getValidatedData raw = Inl (ValidationError issues) \<and> ''message'' \<in> set issues)
         \<and> snd (handle pf c raw) = []
         \<and> (\<forall>s. s \<noteq> [] \<longrightarrow> message_issues (JStr s) = [])"
proof -
  have m: "message_issues (raw_message raw) = [''message'']"
    using assms by (auto simp: message_issues_def)
  then have v: "\<exists>issues. getValidatedData raw = Inl (ValidationError issues) \<and> ''message'' \<in> set issues"
    by (simp add: getValidatedData_def Let_def)
  then have "snd (handle pf c raw) = []"
    by (auto simp: handle_def)
  moreover have "\<forall>s. s \<noteq> [] \<longrightarrow> message_issues (JStr s) = []"
    by (simp add: message_issues_def Suc_le_eq)
  ultimately show ?thesis using v by blast
qed

text \<open>A body without a message; a message of three blanks.\<close>

theorem missing_message_fails_validation_witness:
  "raw_message body_without_message = JUndefined
   \<and> ''   '' \<noteq> []
   \<and> (\<exists>issues. getValidatedData body_without_message = Inl (ValidationError issues) \<and>
         ''message'' \<in> set issues)
   \<and> snd (handle engine (app_context (Some ''k'') (document_answer reply_hello))
        body_without_message) = []
   \<and> message_issues (JStr ''   '') = []"
proof -
  have h: "raw_message body_without_message = JUndefined"
    by (simp add: body_without_message_def)
  have n: "''   '' \<noteq> []" by simp
  from missing_message_fails_validation[OF disjI1[OF h], of engine
      "app_context (Some ''k'') (document_answer reply_hello)"] h n
  show ?thesis by blast
qed

text \<open>
  Claim C5 as stated fails on a message of three blanks: it passes validation, the
  provider is called once and the endpoint answers 200.
\<close>

theorem blank_message_counterexample:
  "message_issues (raw_message (chat_body ''   '' False)) = []
   \<and> length (snd (handle engine (app_context (Some ''k'') (document_answer reply_hello))
        (chat_body ''   '' False))) = 1
   \<and> answered_status (handle engine (app_context (Some ''k'') (document_answer reply_hello))
        (chat_body ''   '' False)) = Some 200"
  by (simp add: chat_body_def message_issues_def handle_def getValidatedData_def
        conversation_id_issues_def temperature_issues_def max_tokens_issues_def stream_issues_def
        app_context_def document_answer_def response_ok_def answered_status_def
        handleNormalResponse_of_document[OF _ reply_hello_document])

text \<open>
  Claim C8. For every valid request, when the provider key is not configured (absent, or
  the empty string) the endpoint answers 500 with \<^verbatim>\<open>success: false\<close> and a non-empty
  \<^verbatim>\<open>error\<close>, and no provider call is made.
\<close>

theorem missing_key_answers_500:
  assumes "getValidatedData raw = Inr data"
      and "GEMINI_API_KEY c = None \<or> GEMINI_API_KEY c = Some []"
  shows "handle pf c raw =
           (Inr \<lparr>rsp_status = 500, rsp_headers = [],
                 rsp_body = JsonBody (JObj [(''success'', JBool False),
                                            (''error'', JStr msg_key_missing)])\<rparr>, [])
         \<and> msg_key_missing \<noteq> []"
  using assms
  by (auto simp: handle_def c_json_def failure_def msg_key_missing_def)

text \<open>A valid streaming request in a context without a key.\<close>

theorem missing_key_answers_500_witness:
  "getValidatedData (chat_body ''hi'' True) =
     Inr \<lparr>message = ''hi'', conversation_id = None, temperature = 0.7, max_tokens = 1024,
          stream = True\<rparr>
   \<and> GEMINI_API_KEY (app_context None (stream_answer [Done])) = None
   \<and> handle engine (app_context None (stream_answer [Done])) (chat_body ''hi'' True) =
       (Inr \<lparr>rsp_status = 500, rsp_headers = [],
             rsp_body = JsonBody (JObj [(''success'', JBool False),
                                        (''error'', JStr msg_key_missing)])\<rparr>, [])"
proof -
  have h: "getValidatedData (chat_body ''hi'' True) =
     Inr \<lparr>message = ''hi'', conversation_id = None, temperature = 0.7, max_tokens = 1024,
          stream = True\<rparr>"
    by (simp add: chat_body_def getValidatedData_def message_issues_def
          conversation_id_issues_def temperature_issues_def max_tokens_issues_def stream_issues_def)
  have k: "GEMINI_API_KEY (app_context None (stream_answer [Done])) = None"
    by (simp add: app_context_def)
  from missing_key_answers_500[OF h disjI1[OF k], of engine] h k show ?thesis by blast
qed




end
